theory Spec2Isabelle
  imports Main
begin

section \<open>Python values, the external framework and the notebook kernel\<close>

text \<open>
  The repository consists of three Jupyter notebooks. Their code cells are straight-line
  Python that calls into external libraries (torch, gpytorch, matplotlib, IPython). The code
  of those libraries is not part of the repository, so the libraries are a parameter of the
  model: a function \<open>fw\<close> that, given the operation called, its argument values and the
  library-owned object store (tensors, modules, files, figures, standard output), returns either
  the error it raises or the value it returns, together with the new store.

  A Python value is a reference to a library object, or one of the literals that occur in
  the notebooks. Floating-point literals and float expressions are kept as their source text.
\<close>

datatype 'o pyval =
    Ref 'o
  | Str string
  | IntV int
  | FloatExpr string
  | BoolV bool
  | NoneV
  | TupleV "'o pyval list"
  | ListV "'o pyval list"
  | Kw string "'o pyval"
  | ExcInfo

text \<open>
  The operations a cell can invoke: a library function by its dotted name, a method of the
  receiver (first argument), a call of a callable object (first argument), attribute reads and
  writes, operators, imports, IPython magics, and the definition of a class (whose argument is
  the name of its base class).
\<close>

datatype api =
    Fn string
  | Method string
  | CallObj
  | Getattr string
  | Setattr string
  | Op string
  | Import string
  | Magic string
  | Class_def string
  | New string

datatype 'e pyerr = Raised 'e | NameError string | TypeError

type_synonym ('o, 'h, 'e) framework =
  "api \<Rightarrow> 'o pyval list \<Rightarrow> 'h \<Rightarrow> ('e + 'o pyval) \<times> 'h"

type_synonym ('o, 'e) event = "api \<times> 'o pyval list \<times> ('e + 'o pyval)"

text \<open>
  The state of a running notebook kernel: the library-owned store, the notebook's global
  namespace, the process environment (\<open>os.environ\<close>), and a log of every external call made so
  far with its arguments and outcome. The log is ghost state: no cell reads it.
\<close>

record ('o, 'h, 'e) kernel =
  heap :: 'h
  vars :: "string \<Rightarrow> 'o pyval option"
  environ :: "string \<Rightarrow> string option"
  trace :: "('o, 'e) event list"

type_synonym ('a, 'o, 'h, 'e) prog =
  "('o, 'h, 'e) kernel \<Rightarrow> ('e pyerr + 'a) \<times> ('o, 'h, 'e) kernel"

definition ret :: "'a \<Rightarrow> ('a, 'o, 'h, 'e) prog" where
  "ret v k = (Inr v, k)"

text \<open>Sequencing: an exception ends the computation; the kernel keeps the state reached.\<close>

definition bnd :: "('a, 'o, 'h, 'e) prog \<Rightarrow> ('a \<Rightarrow> ('b, 'o, 'h, 'e) prog) \<Rightarrow> ('b, 'o, 'h, 'e) prog" where
  "bnd m f k = (case m k of (Inl e, k') \<Rightarrow> (Inl e, k') | (Inr v, k') \<Rightarrow> f v k')"

definition seq :: "('a, 'o, 'h, 'e) prog \<Rightarrow> ('b, 'o, 'h, 'e) prog \<Rightarrow> ('b, 'o, 'h, 'e) prog" where
  "seq m n = bnd m (\<lambda>_. n)"

definition call :: "('o, 'h, 'e) framework \<Rightarrow> api \<Rightarrow> 'o pyval list \<Rightarrow> ('o pyval, 'o, 'h, 'e) prog" where
  "call fw f args k =
     (case fw f args (heap k) of
        (Inl e, h') \<Rightarrow> (Inl (Raised e), k\<lparr>heap := h', trace := trace k @ [(f, args, Inl e)]\<rparr>)
      | (Inr v, h') \<Rightarrow> (Inr v, k\<lparr>heap := h', trace := trace k @ [(f, args, Inr v)]\<rparr>))"

definition var :: "string \<Rightarrow> ('o pyval, 'o, 'h, 'e) prog" where
  "var x k = (case vars k x of None \<Rightarrow> (Inl (NameError x), k) | Some v \<Rightarrow> (Inr v, k))"

definition lit :: "'o pyval \<Rightarrow> ('o pyval, 'o, 'h, 'e) prog" where
  "lit v = ret v"

definition assign :: "string \<Rightarrow> ('o pyval, 'o, 'h, 'e) prog \<Rightarrow> ('o pyval, 'o, 'h, 'e) prog" where
  "assign x e = bnd e (\<lambda>v k. (Inr NoneV, k\<lparr>vars := (vars k)(x \<mapsto> v)\<rparr>))"

text \<open>Arguments are evaluated left to right, then the operation is called.\<close>

primrec evals :: "('o pyval, 'o, 'h, 'e) prog list \<Rightarrow> ('o pyval list, 'o, 'h, 'e) prog" where
  "evals [] = ret []"
| "evals (e # es) = bnd e (\<lambda>v. bnd (evals es) (\<lambda>vs. ret (v # vs)))"

definition app :: "('o, 'h, 'e) framework \<Rightarrow> api \<Rightarrow> ('o pyval, 'o, 'h, 'e) prog list \<Rightarrow> ('o pyval, 'o, 'h, 'e) prog" where
  "app fw f es = bnd (evals es) (call fw f)"

text \<open>\<open>target.name = value\<close>: Python evaluates the right-hand side first.\<close>

definition setattr :: "('o, 'h, 'e) framework \<Rightarrow> ('o pyval, 'o, 'h, 'e) prog \<Rightarrow> string \<Rightarrow>
    ('o pyval, 'o, 'h, 'e) prog \<Rightarrow> ('o pyval, 'o, 'h, 'e) prog" where
  "setattr fw target name val = bnd val (\<lambda>v. bnd target (\<lambda>t. call fw (Setattr name) [t, v]))"

text \<open>A block of statements, and a cell, run top to bottom.\<close>

primrec block :: "('o pyval, 'o, 'h, 'e) prog list \<Rightarrow> ('o pyval, 'o, 'h, 'e) prog" where
  "block [] = ret NoneV"
| "block (s # ss) = seq s (block ss)"

text \<open>\<open>for x in xs: body\<close> over a list of values already computed.\<close>

primrec for_in :: "string \<Rightarrow> 'o pyval list \<Rightarrow> ('o pyval, 'o, 'h, 'e) prog \<Rightarrow> ('o pyval, 'o, 'h, 'e) prog" where
  "for_in x [] body = ret NoneV"
| "for_in x (v # vs) body = seq (assign x (lit v)) (seq body (for_in x vs body))"

text \<open>\<open>range(n)\<close> for the value of an integer expression; any other value is a type error.\<close>

fun py_range :: "'o pyval \<Rightarrow> 'e pyerr + 'o pyval list" where
  "py_range (IntV n) = Inr (map (\<lambda>i. IntV (int i)) [0..<nat n])"
| "py_range _ = Inl TypeError"

definition range_of :: "'o pyval \<Rightarrow> ('o pyval list, 'o, 'h, 'e) prog" where
  "range_of v k = (py_range v, k)"

definition for_range :: "string \<Rightarrow> ('o pyval, 'o, 'h, 'e) prog \<Rightarrow> ('o pyval, 'o, 'h, 'e) prog \<Rightarrow> ('o pyval, 'o, 'h, 'e) prog" where
  "for_range x n body = bnd n (\<lambda>v. bnd (range_of v) (\<lambda>vs. for_in x vs body))"

text \<open>
  \<open>cond\<close> is Python's \<open>if\<close> on a value that is a \<open>bool\<close>; the notebooks branch only on
  \<open>smoke_test\<close>, \<open>HAVE_KEOPS\<close> and the result of \<open>torch.cuda.is_available()\<close>.
\<close>

definition truthy :: "'o pyval \<Rightarrow> bool" where
  "truthy v = (v = BoolV True)"

definition cond :: "('o pyval, 'o, 'h, 'e) prog \<Rightarrow> ('a, 'o, 'h, 'e) prog \<Rightarrow> ('a, 'o, 'h, 'e) prog \<Rightarrow> ('a, 'o, 'h, 'e) prog" where
  "cond c t e = bnd c (\<lambda>b. if truthy b then t else e)"

text \<open>\<open>'CI' in os.environ\<close>.\<close>

definition in_environ :: "string \<Rightarrow> ('o pyval, 'o, 'h, 'e) prog" where
  "in_environ name k = (Inr (BoolV (environ k name \<noteq> None)), k)"

text \<open>
  \<open>with cm: body\<close>. The context manager is entered, the body runs, and the manager's
  \<open>__exit__\<close> is called on both paths. After an exception in the body, Python passes the
  exception to \<open>__exit__\<close> and swallows it exactly when \<open>__exit__\<close> returns a true value; an
  exception raised by \<open>__exit__\<close> itself replaces it.
\<close>

definition with_exit :: "('o, 'h, 'e) framework \<Rightarrow> 'o pyval \<Rightarrow> ('o pyval, 'o, 'h, 'e) prog \<Rightarrow> ('o pyval, 'o, 'h, 'e) prog" where
  "with_exit fw c body k =
     (case body k of
        (Inr v, k') \<Rightarrow> seq (call fw (Method ''__exit__'') [c, NoneV]) (ret NoneV) k'
      | (Inl e, k') \<Rightarrow>
          (case call fw (Method ''__exit__'') [c, ExcInfo] k' of
             (Inl e', k'') \<Rightarrow> (Inl e', k'')
           | (Inr b, k'') \<Rightarrow> if truthy b then (Inr NoneV, k'') else (Inl e, k'')))"

definition with_cm :: "('o, 'h, 'e) framework \<Rightarrow> ('o pyval, 'o, 'h, 'e) prog \<Rightarrow> ('o pyval, 'o, 'h, 'e) prog \<Rightarrow> ('o pyval, 'o, 'h, 'e) prog" where
  "with_cm fw cm body =
     bnd cm (\<lambda>c. bnd (call fw (Method ''__enter__'') [c]) (\<lambda>_. with_exit fw c body))"

text \<open>Small Python-level helpers: tuples, list literals, \<open>n + 1\<close> on integers, tuple unpacking.\<close>

definition tuple :: "('o pyval, 'o, 'h, 'e) prog list \<Rightarrow> ('o pyval, 'o, 'h, 'e) prog" where
  "tuple es = bnd (evals es) (\<lambda>vs. ret (TupleV vs))"

fun py_add :: "'o pyval \<Rightarrow> int \<Rightarrow> 'e pyerr + 'o pyval" where
  "py_add (IntV i) n = Inr (IntV (i + n))"
| "py_add _ n = Inl TypeError"

definition add_int :: "('o pyval, 'o, 'h, 'e) prog \<Rightarrow> int \<Rightarrow> ('o pyval, 'o, 'h, 'e) prog" where
  "add_int e n = bnd e (\<lambda>v k. (py_add v n, k))"

text \<open>
  \<open>x, y = e\<close>: the value of \<open>e\<close> is asked for its first and its second component, which are
  bound in this order.
\<close>

definition unpack2 :: "('o, 'h, 'e) framework \<Rightarrow> string \<Rightarrow> string \<Rightarrow> ('o pyval, 'o, 'h, 'e) prog \<Rightarrow> ('o pyval, 'o, 'h, 'e) prog" where
  "unpack2 fw x y e =
     bnd e (\<lambda>t. bnd (call fw (Op ''unpack'') [t, IntV 0]) (\<lambda>a. bnd (call fw (Op ''unpack'') [t, IntV 1]) (\<lambda>b.
       seq (assign x (lit a)) (assign y (lit b)))))"

section \<open>Notebook: GP Regression with a Spectral Mixture Kernel\<close>

definition sm_cell1 :: "('o, 'h, 'e) framework \<Rightarrow> ('o pyval, 'o, 'h, 'e) prog" where
  "sm_cell1 fw = block [
     app fw (Import ''math'') [],
     app fw (Import ''torch'') [],
     app fw (Import ''gpytorch'') [],
     app fw (Import ''matplotlib.pyplot'') [],
     app fw (Magic ''matplotlib inline'') [],
     app fw (Magic ''load_ext autoreload'') [],
     app fw (Magic ''autoreload 2'') []]"

definition sm_cell3 :: "('o, 'h, 'e) framework \<Rightarrow> ('o pyval, 'o, 'h, 'e) prog" where
  "sm_cell3 fw = block [
     assign ''train_x'' (app fw (Fn ''torch.linspace'') [lit (IntV 0), lit (IntV 1), lit (IntV 15)]),
     assign ''train_y'' (app fw (Fn ''torch.sin'')
        [app fw (Op ''*'') [var ''train_x'', lit (FloatExpr ''2 * math.pi'')]])]"

text \<open>The body of \<open>SpectralMixtureGPModel.__init__\<close>.\<close>

definition SpectralMixtureGPModel_init :: "('o, 'h, 'e) framework \<Rightarrow> 'o pyval \<Rightarrow> 'o pyval \<Rightarrow> 'o pyval \<Rightarrow> 'o pyval \<Rightarrow> ('o pyval, 'o, 'h, 'e) prog" where
  "SpectralMixtureGPModel_init fw self train_x train_y likelihood = block [
     call fw (Method ''super().__init__'') [self, train_x, train_y, likelihood],
     setattr fw (lit self) ''mean_module'' (app fw (Fn ''gpytorch.means.ConstantMean'') []),
     setattr fw (lit self) ''covar_module''
       (app fw (Fn ''gpytorch.kernels.SpectralMixtureKernel'') [lit (Kw ''num_mixtures'' (IntV 4))]),
     app fw (Method ''initialize_from_data'')
       [app fw (Getattr ''covar_module'') [lit self], lit train_x, lit train_y]]"

text \<open>
  Calling a class: the arguments are evaluated, the object is made and its \<open>__init__\<close> runs.
  The \<open>forward\<close> method of a model class is run by the library inside the call of the model
  object (\<open>CallObj\<close>); it is handed over with the class definition.
\<close>

definition construct :: "('o, 'h, 'e) framework \<Rightarrow> string \<Rightarrow>
    ('o pyval \<Rightarrow> 'o pyval \<Rightarrow> 'o pyval \<Rightarrow> 'o pyval \<Rightarrow> ('o pyval, 'o, 'h, 'e) prog) \<Rightarrow>
    ('o pyval, 'o, 'h, 'e) prog \<Rightarrow> ('o pyval, 'o, 'h, 'e) prog \<Rightarrow> ('o pyval, 'o, 'h, 'e) prog \<Rightarrow>
    ('o pyval, 'o, 'h, 'e) prog" where
  "construct fw cls init a b c =
     bnd a (\<lambda>x. bnd b (\<lambda>y. bnd c (\<lambda>z. bnd (call fw (New cls) []) (\<lambda>self.
       seq (init self x y z) (ret self)))))"

definition sm_cell5 :: "('o, 'h, 'e) framework \<Rightarrow> ('o pyval, 'o, 'h, 'e) prog" where
  "sm_cell5 fw = block [
     call fw (Class_def ''SpectralMixtureGPModel'') [Str ''gpytorch.models.ExactGP''],
     assign ''likelihood'' (app fw (Fn ''gpytorch.likelihoods.GaussianLikelihood'') []),
     assign ''model'' (construct fw ''SpectralMixtureGPModel'' (SpectralMixtureGPModel_init fw)
        (var ''train_x'') (var ''train_y'') (var ''likelihood''))]"

text \<open>The body of the training loop of cell 7.\<close>

definition sm_loop_body :: "('o, 'h, 'e) framework \<Rightarrow> ('o pyval, 'o, 'h, 'e) prog" where
  "sm_loop_body fw = block [
     app fw (Method ''zero_grad'') [var ''optimizer''],
     assign ''output'' (app fw CallObj [var ''model'', var ''train_x'']),
     assign ''loss'' (app fw (Op ''neg'') [app fw CallObj [var ''mll'', var ''output'', var ''train_y'']]),
     app fw (Method ''backward'') [var ''loss''],
     app fw (Fn ''print'') [app fw (Op ''%'') [lit (Str ''Iter %d/%d - Loss: %.3f''),
        tuple [add_int (var ''i'') 1, var ''training_iter'', app fw (Method ''item'') [var ''loss'']]]],
     app fw (Method ''step'') [var ''optimizer'']]"

definition sm_cell7 :: "('o, 'h, 'e) framework \<Rightarrow> ('o pyval, 'o, 'h, 'e) prog" where
  "sm_cell7 fw = block [
     app fw (Import ''os'') [],
     assign ''smoke_test'' (in_environ ''CI''),
     assign ''training_iter'' (cond (var ''smoke_test'') (lit (IntV 2)) (lit (IntV 100))),
     app fw (Method ''train'') [var ''model''],
     app fw (Method ''train'') [var ''likelihood''],
     assign ''optimizer'' (app fw (Fn ''torch.optim.Adam'')
        [app fw (Method ''parameters'') [var ''model''], lit (Kw ''lr'' (FloatExpr ''0.1''))]),
     assign ''mll'' (app fw (Fn ''gpytorch.mlls.ExactMarginalLogLikelihood'') [var ''likelihood'', var ''model'']),
     for_range ''i'' (var ''training_iter'') (sm_loop_body fw)]"

definition sm_plot_body :: "('o, 'h, 'e) framework \<Rightarrow> ('o pyval, 'o, 'h, 'e) prog" where
  "sm_plot_body fw = block [
     assign ''observed_pred'' (app fw CallObj [var ''likelihood'', app fw CallObj [var ''model'', var ''test_x'']]),
     unpack2 fw ''f'' ''ax'' (app fw (Fn ''plt.subplots'')
        [lit (IntV 1), lit (IntV 1), lit (Kw ''figsize'' (TupleV [IntV 4, IntV 3]))]),
     unpack2 fw ''lower'' ''upper'' (app fw (Method ''confidence_region'') [var ''observed_pred'']),
     app fw (Method ''plot'') [var ''ax'', app fw (Method ''numpy'') [var ''train_x''],
        app fw (Method ''numpy'') [var ''train_y''], lit (Str ''k*'')],
     app fw (Method ''plot'') [var ''ax'', app fw (Method ''numpy'') [var ''test_x''],
        app fw (Method ''numpy'') [app fw (Getattr ''mean'') [var ''observed_pred'']], lit (Str ''b'')],
     app fw (Method ''fill_between'') [var ''ax'', app fw (Method ''numpy'') [var ''test_x''],
        app fw (Method ''numpy'') [var ''lower''], app fw (Method ''numpy'') [var ''upper''],
        lit (Kw ''alpha'' (FloatExpr ''0.5''))],
     app fw (Method ''set_ylim'') [var ''ax'', lit (ListV [IntV (- 3), IntV 3])],
     app fw (Method ''legend'') [var ''ax'', lit (ListV [Str ''Observed Data'', Str ''Mean'', Str ''Confidence''])]]"

definition sm_cell9 :: "('o, 'h, 'e) framework \<Rightarrow> ('o pyval, 'o, 'h, 'e) prog" where
  "sm_cell9 fw = block [
     assign ''test_x'' (app fw (Fn ''torch.linspace'') [lit (IntV 0), lit (IntV 5), lit (IntV 51)]),
     app fw (Method ''eval'') [var ''model''],
     app fw (Method ''eval'') [var ''likelihood''],
     with_cm fw (app fw (Fn ''torch.no_grad'') [])
       (with_cm fw (app fw (Fn ''gpytorch.settings.fast_pred_var'') []) (sm_plot_body fw))]"


section \<open>Notebook: Scalable Exact GP Posterior Sampling using Contour Integral Quadrature\<close>

definition ciq_cell1 :: "('o, 'h, 'e) framework \<Rightarrow> ('o pyval, 'o, 'h, 'e) prog" where
  "ciq_cell1 fw = block [
     app fw (Import ''math'') [],
     app fw (Import ''torch'') [],
     app fw (Import ''gpytorch'') [],
     app fw (Import ''matplotlib.pyplot'') [],
     app fw (Import ''warnings'') [],
     app fw (Fn ''warnings.simplefilter'') [lit (Str ''ignore''),
        app fw (Getattr ''NumericalWarning'') [lit (Str ''gpytorch.utils.warnings'')]],
     app fw (Magic ''matplotlib inline'') [],
     app fw (Magic ''load_ext autoreload'') [],
     app fw (Magic ''autoreload 2'') []]"

text \<open>Noisy training targets: \<open>torch.sin(train_x * (2 * math.pi)) + torch.randn(train_x.size()) * 0.2\<close>.\<close>

definition noisy_sin :: "('o, 'h, 'e) framework \<Rightarrow> ('o pyval, 'o, 'h, 'e) prog" where
  "noisy_sin fw = app fw (Op ''+'')
     [app fw (Fn ''torch.sin'') [app fw (Op ''*'') [var ''train_x'', lit (FloatExpr ''2 * math.pi'')]],
      app fw (Op ''*'') [app fw (Fn ''torch.randn'') [app fw (Method ''size'') [var ''train_x'']],
                         lit (FloatExpr ''0.2'')]]"

definition ciq_cell2 :: "('o, 'h, 'e) framework \<Rightarrow> ('o pyval, 'o, 'h, 'e) prog" where
  "ciq_cell2 fw = block [
     assign ''train_x'' (app fw (Fn ''torch.linspace'') [lit (IntV 0), lit (IntV 1), lit (IntV 1000)]),
     assign ''train_y'' (noisy_sin fw)]"

text \<open>
  Cell 4 sets the flag \<open>HAVE_KEOPS\<close>, which the notebook asks its user to edit by hand. The
  cell is modelled for either value; the repository ships the value \<open>False\<close>.
\<close>

definition HAVE_KEOPS :: bool where
  "HAVE_KEOPS = False"

definition ciq_cell4 :: "bool \<Rightarrow> ('o pyval, 'o, 'h, 'e) prog" where
  "ciq_cell4 flag = assign ''HAVE_KEOPS'' (lit (BoolV flag))"

text \<open>The body of \<open>ExactGPModel.__init__\<close> of this notebook; it reads the global flag.\<close>

definition ciq_ExactGPModel_init :: "('o, 'h, 'e) framework \<Rightarrow> 'o pyval \<Rightarrow> 'o pyval \<Rightarrow> 'o pyval \<Rightarrow> 'o pyval \<Rightarrow> ('o pyval, 'o, 'h, 'e) prog" where
  "ciq_ExactGPModel_init fw self train_x train_y likelihood = block [
     call fw (Method ''super().__init__'') [self, train_x, train_y, likelihood],
     setattr fw (lit self) ''mean_module'' (app fw (Fn ''gpytorch.means.ConstantMean'') []),
     cond (var ''HAVE_KEOPS'')
       (setattr fw (lit self) ''covar_module'' (app fw (Fn ''gpytorch.kernels.ScaleKernel'')
          [app fw (Fn ''gpytorch.kernels.keops.RBFKernel'') []]))
       (setattr fw (lit self) ''covar_module'' (app fw (Fn ''gpytorch.kernels.ScaleKernel'')
          [app fw (Fn ''gpytorch.kernels.RBFKernel'') []]))]"

definition ciq_cell6 :: "('o, 'h, 'e) framework \<Rightarrow> ('o pyval, 'o, 'h, 'e) prog" where
  "ciq_cell6 fw = block [
     call fw (Class_def ''ExactGPModel'') [Str ''gpytorch.models.ExactGP''],
     assign ''likelihood'' (app fw (Fn ''gpytorch.likelihoods.GaussianLikelihood'') []),
     assign ''model'' (construct fw ''ExactGPModel'' (ciq_ExactGPModel_init fw)
        (var ''train_x'') (var ''train_y'') (var ''likelihood''))]"

definition to_cuda :: "('o, 'h, 'e) framework \<Rightarrow> string \<Rightarrow> ('o pyval, 'o, 'h, 'e) prog" where
  "to_cuda fw x = assign x (app fw (Method ''cuda'') [var x])"

definition ciq_cell7 :: "('o, 'h, 'e) framework \<Rightarrow> ('o pyval, 'o, 'h, 'e) prog" where
  "ciq_cell7 fw = cond (app fw (Fn ''torch.cuda.is_available'') [])
     (block [to_cuda fw ''train_x'', to_cuda fw ''train_y'', to_cuda fw ''model'', to_cuda fw ''likelihood''])
     (ret NoneV)"

definition ciq_loop_body :: "('o, 'h, 'e) framework \<Rightarrow> ('o pyval, 'o, 'h, 'e) prog" where
  "ciq_loop_body fw = block [
     app fw (Method ''zero_grad'') [var ''optimizer''],
     assign ''output'' (app fw CallObj [var ''model'', var ''train_x'']),
     assign ''loss'' (app fw (Op ''neg'') [app fw CallObj [var ''mll'', var ''output'', var ''train_y'']]),
     app fw (Method ''backward'') [var ''loss''],
     app fw (Fn ''print'') [app fw (Op ''%'')
        [lit (Str ''Iter %d/%d - Loss: %.3f   lengthscale: %.3f   noise: %.3f''),
         tuple [add_int (var ''i'') 1, var ''training_iter'',
           app fw (Method ''item'') [var ''loss''],
           app fw (Method ''item'') [app fw (Getattr ''lengthscale'')
              [app fw (Getattr ''base_kernel'') [app fw (Getattr ''covar_module'') [var ''model'']]]],
           app fw (Method ''item'') [app fw (Getattr ''noise'') [app fw (Getattr ''likelihood'') [var ''model'']]]]]],
     app fw (Method ''step'') [var ''optimizer'']]"

definition ciq_cell8 :: "('o, 'h, 'e) framework \<Rightarrow> ('o pyval, 'o, 'h, 'e) prog" where
  "ciq_cell8 fw = block [
     app fw (Import ''os'') [],
     assign ''smoke_test'' (in_environ ''CI''),
     assign ''training_iter'' (cond (var ''smoke_test'') (lit (IntV 2)) (lit (IntV 50))),
     app fw (Method ''train'') [var ''model''],
     app fw (Method ''train'') [var ''likelihood''],
     assign ''optimizer'' (app fw (Fn ''torch.optim.Adam'')
        [app fw (Method ''parameters'') [var ''model''], lit (Kw ''lr'' (FloatExpr ''0.1''))]),
     assign ''mll'' (app fw (Fn ''gpytorch.mlls.ExactMarginalLogLikelihood'') [var ''likelihood'', var ''model'']),
     for_range ''i'' (var ''training_iter'') (ciq_loop_body fw)]"

definition ciq_cell10 :: "('o, 'h, 'e) framework \<Rightarrow> ('o pyval, 'o, 'h, 'e) prog" where
  "ciq_cell10 fw = block [
     cond (var ''HAVE_KEOPS'') (assign ''test_n'' (lit (IntV 50000))) (assign ''test_n'' (lit (IntV 10000))),
     assign ''test_x'' (app fw (Fn ''torch.linspace'') [lit (IntV 0), lit (IntV 1), var ''test_n'']),
     cond (app fw (Fn ''torch.cuda.is_available'') []) (to_cuda fw ''test_x'') (ret NoneV),
     app fw (Fn ''print'') [app fw (Getattr ''shape'') [var ''test_x'']]]"

text \<open>\<open>%time stmt\<close> runs the statement and then reports the time it took.\<close>

definition time_magic :: "('o, 'h, 'e) framework \<Rightarrow> ('o pyval, 'o, 'h, 'e) prog \<Rightarrow> ('o pyval, 'o, 'h, 'e) prog" where
  "time_magic fw stmt = seq stmt (call fw (Magic ''time'') [])"

definition ciq_sample_body :: "('o, 'h, 'e) framework \<Rightarrow> ('o pyval, 'o, 'h, 'e) prog" where
  "ciq_sample_body fw = block [
     assign ''observed_pred'' (app fw CallObj [var ''likelihood'', app fw CallObj [var ''model'', var ''test_x'']]),
     app fw (Fn ''print'') [lit (Str ''Running with CIQ'')],
     with_cm fw (app fw (Fn ''gpytorch.settings.ciq_samples'') [lit (BoolV True)])
       (with_cm fw (app fw (Fn ''gpytorch.settings.num_contour_quadrature'') [lit (IntV 10)])
         (with_cm fw (app fw (Fn ''gpytorch.settings.minres_tolerance'') [lit (FloatExpr ''1e-4'')])
           (time_magic fw (assign ''y_samples'' (app fw (Method ''rsample'') [var ''observed_pred'']))))),
     app fw (Fn ''print'') [lit (Str ''Running with Cholesky'')],
     with_cm fw (app fw (Fn ''gpytorch.settings.fast_computations'')
          [lit (Kw ''covar_root_decomposition'' (BoolV False))])
       (time_magic fw (assign ''y_samples'' (app fw (Method ''rsample'') [var ''observed_pred''])))]"

definition ciq_cell12 :: "('o, 'h, 'e) framework \<Rightarrow> ('o pyval, 'o, 'h, 'e) prog" where
  "ciq_cell12 fw = block [
     app fw (Import ''time'') [],
     app fw (Method ''train'') [var ''model''],
     app fw (Method ''train'') [var ''likelihood''],
     app fw (Method ''eval'') [var ''model''],
     app fw (Method ''eval'') [var ''likelihood''],
     app fw (Method ''requires_grad_'') [var ''test_x'', lit (BoolV True)],
     with_cm fw (app fw (Fn ''torch.no_grad'') []) (ciq_sample_body fw)]"



section \<open>Notebook: Saving and Loading Models\<close>







text \<open>A cell whose last line is an expression displays the value of that expression.\<close>

definition display :: "('o, 'h, 'e) framework \<Rightarrow> ('o pyval, 'o, 'h, 'e) prog \<Rightarrow> ('o pyval, 'o, 'h, 'e) prog" where
  "display fw e = bnd e (\<lambda>v. call fw (Fn ''display'') [v])"









section \<open>The outputs recorded in the save/load notebook\<close>





definition Out7 :: string where
  "Out7 = ''<All keys matched successfully>''"



definition Out12 :: string where
  "Out12 = ''<All keys matched successfully>''"


section \<open>Reading the call log\<close>

definition ev_api :: "('o, 'e) event \<Rightarrow> api" where
  "ev_api ev = fst ev"

definition ev_args :: "('o, 'e) event \<Rightarrow> 'o pyval list" where
  "ev_args ev = fst (snd ev)"

definition ev_ok :: "('o, 'e) event \<Rightarrow> bool" where
  "ev_ok ev = (case snd (snd ev) of Inr _ \<Rightarrow> True | Inl _ \<Rightarrow> False)"

definition ev_val :: "('o, 'e) event \<Rightarrow> 'o pyval" where
  "ev_val ev = (case snd (snd ev) of Inr v \<Rightarrow> v | Inl _ \<Rightarrow> NoneV)"

text \<open>
  The calls that only report progress in a training iteration: attribute reads, \<open>.item()\<close>,
  string formatting and \<open>print\<close>.
\<close>

fun is_report :: "('o, 'e) event \<Rightarrow> bool" where
  "is_report (Getattr _, _, _) = True"
| "is_report (Method m, _, _) = (m = ''item'')"
| "is_report (Op p, _, _) = (p = ''%'')"
| "is_report (Fn f, _, _) = (f = ''print'')"
| "is_report _ = False"

text \<open>
  The shape of one training iteration in the log: gradients are zeroed on the optimizer, the
  model is called on the training inputs, the marginal log-likelihood object is called on that
  output and the training targets, the result is negated, \<open>backward\<close> is called on the negated
  value, progress is reported, and the optimizer takes one step. Every call succeeded.
\<close>

fun training_iteration :: "'o pyval \<Rightarrow> 'o pyval \<Rightarrow> 'o pyval \<Rightarrow> 'o pyval \<Rightarrow> 'o pyval \<Rightarrow> ('o, 'e) event list \<Rightarrow> bool" where
  "training_iteration model mll optimizer train_x train_y (e1 # e2 # e3 # e4 # e5 # rest) =
     (list_all ev_ok (e1 # e2 # e3 # e4 # e5 # rest) \<and>
      ev_api e1 = Method ''zero_grad'' \<and> ev_args e1 = [optimizer] \<and>
      ev_api e2 = CallObj \<and> ev_args e2 = [model, train_x] \<and>
      ev_api e3 = CallObj \<and> ev_args e3 = [mll, ev_val e2, train_y] \<and>
      ev_api e4 = Op ''neg'' \<and> ev_args e4 = [ev_val e3] \<and>
      ev_api e5 = Method ''backward'' \<and> ev_args e5 = [ev_val e4] \<and>
      rest \<noteq> [] \<and> list_all is_report (butlast rest) \<and>
      ev_api (last rest) = Method ''step'' \<and> ev_args (last rest) = [optimizer])"
| "training_iteration _ _ _ _ _ _ = False"

definition loop_inv :: "'o pyval \<Rightarrow> 'o pyval \<Rightarrow> 'o pyval \<Rightarrow> 'o pyval \<Rightarrow> 'o pyval \<Rightarrow> (string \<Rightarrow> 'o pyval option) \<Rightarrow> bool" where
  "loop_inv m ml opt tx ty n \<longleftrightarrow> n ''model'' = Some m \<and> n ''mll'' = Some ml \<and> n ''optimizer'' = Some opt
     \<and> n ''train_x'' = Some tx \<and> n ''train_y'' = Some ty"

text \<open>
  What a training cell adds to the log when it runs to its end: six set-up calls (among them
  the construction of the Adam optimizer over the model's parameters and of the exact marginal
  log-likelihood of likelihood and model), followed by the iterations of the loop, whose number is
  2 when \<open>CI\<close> is in the environment and \<open>dflt\<close> otherwise.
\<close>

definition training_setup_calls :: "api list" where
  "training_setup_calls = [Import ''os'', Method ''train'', Method ''train'', Method ''parameters'',
     Fn ''torch.optim.Adam'', Fn ''gpytorch.mlls.ExactMarginalLogLikelihood'']"

definition training_run :: "int \<Rightarrow> ('o, 'h, 'e) kernel \<Rightarrow> ('o, 'h, 'e) kernel \<Rightarrow> bool" where
  "training_run dflt k k' \<longleftrightarrow>
     (\<exists>setup iters model likelihood train_x train_y optimizer mll params.
        vars k ''model'' = Some model \<and> vars k ''likelihood'' = Some likelihood \<and>
        vars k ''train_x'' = Some train_x \<and> vars k ''train_y'' = Some train_y \<and>
        trace k' = trace k @ setup @ concat iters \<and>
        list_all ev_ok setup \<and> map ev_api setup = training_setup_calls \<and>
        (Fn ''torch.optim.Adam'', [params, Kw ''lr'' (FloatExpr ''0.1'')], Inr optimizer) \<in> set setup \<and>
        (Fn ''gpytorch.mlls.ExactMarginalLogLikelihood'', [likelihood, model], Inr mll) \<in> set setup \<and>
        int (length iters) = (if environ k ''CI'' \<noteq> None then 2 else dflt) \<and>
        list_all (training_iteration model mll optimizer train_x train_y) iters)"

section \<open>A concrete framework for running the notebooks\<close>

text \<open>
  To run a notebook on concrete input, the external libraries are instantiated by the simplest
  framework there is: its store is a counter, every call succeeds and returns a reference to a
  fresh object. \<open>kernel0\<close> is a freshly started kernel in a given process environment.
\<close>

definition fw_fresh :: "(nat, nat, unit) framework" where
  "fw_fresh f args h = (Inr (Ref h), Suc h)"

definition kernel0 :: "(string \<Rightarrow> string option) \<Rightarrow> (nat, nat, 'e) kernel" where
  "kernel0 env = \<lparr>heap = 0, vars = Map.empty, environ = env, trace = []\<rparr>"

definition ci_env :: "string \<Rightarrow> string option" where
  "ci_env = Map.empty(''CI'' \<mapsto> ''true'')"

text \<open>The kernels in which the two training cells start when \<open>CI\<close> is set.\<close>

definition sm_before_training :: "(nat, nat, unit) kernel" where
  "sm_before_training = snd (block [sm_cell1 fw_fresh, sm_cell3 fw_fresh, sm_cell5 fw_fresh] (kernel0 ci_env))"

definition ciq_before_training :: "(nat, nat, unit) kernel" where
  "ciq_before_training = snd (block [ciq_cell1 fw_fresh, ciq_cell2 fw_fresh, ciq_cell4 HAVE_KEOPS,
     ciq_cell6 fw_fresh, ciq_cell7 fw_fresh] (kernel0 ci_env))"


section \<open>Frame: names a program never rebinds\<close>


section \<open>How a run ends\<close>

text \<open>
  A call of \<open>__exit__\<close> that receives the exception of the block it closes is clean-up. Such a
  call \<^emph>\<open>interferes\<close> when it raises itself or returns a true value (which makes Python swallow
  the exception); the context managers of a well-behaved library do neither.
\<close>

definition is_exit :: "('o, 'e) event \<Rightarrow> bool" where
  "is_exit ev \<longleftrightarrow> ev_api ev = Method ''__exit__''"

definition cleanup :: "('o, 'e) event \<Rightarrow> bool" where
  "cleanup ev \<longleftrightarrow> is_exit ev \<and> length (ev_args ev) = 2 \<and> ev_args ev ! 1 = ExcInfo"

definition interferes :: "('o, 'e) event \<Rightarrow> bool" where
  "interferes ev \<longleftrightarrow> is_exit ev \<and> (\<not> ev_ok ev \<or> truthy (ev_val ev))"

text \<open>
  \<open>outcome err evs\<close> relates the way a run ended to the calls \<open>evs\<close> it made. A run that
  returned (\<open>None\<close>) made only successful calls. A run that ended with a library error \<open>e\<close>
  made successful calls, then the call that raised \<open>e\<close>, then clean-up only. A run that ended
  with an error of the Python runtime made successful calls and then clean-up only.
\<close>

definition err_of :: "'e pyerr + 'a \<Rightarrow> 'e pyerr option" where
  "err_of r = (case r of Inl e \<Rightarrow> Some e | Inr _ \<Rightarrow> None)"

fun raising :: "'e pyerr \<Rightarrow> ('o, 'e) event list \<Rightarrow> bool" where
  "raising (Raised e) [(f, a, Inl e')] = (e' = e)"
| "raising (Raised e) _ = False"
| "raising _ mid = (mid = [])"

definition outcome :: "'e pyerr option \<Rightarrow> ('o, 'e) event list \<Rightarrow> bool" where
  "outcome err evs \<longleftrightarrow>
     (case err of
        None \<Rightarrow> list_all ev_ok evs
      | Some x \<Rightarrow> (\<exists>pre mid post. evs = pre @ mid @ post \<and> list_all ev_ok pre \<and> raising x mid \<and>
            list_all cleanup post))"

definition propagates :: "('a, 'o, 'h, 'e) prog \<Rightarrow> bool" where
  "propagates m \<longleftrightarrow> (\<forall>k r k'. m k = (r, k') \<longrightarrow>
      (\<exists>evs. trace k' = trace k @ evs \<and> (\<not> list_ex interferes evs \<longrightarrow> outcome (err_of r) evs)))"



text \<open>A framework like \<open>fw_fresh\<close> in which one operation raises \<open>RuntimeError\<close>.\<close>

definition fw_raising :: "api \<Rightarrow> (nat, nat, string) framework" where
  "fw_raising bad f args h = (if f = bad then (Inl ''RuntimeError'', h) else (Inr (Ref h), Suc h))"


section \<open>What a run depends on\<close>



section \<open>Calls a program never makes\<close>


text \<open>The calls that read, write or install a state dictionary.\<close>

fun state_call :: "api \<Rightarrow> bool" where
  "state_call (Fn f) = (f = ''torch.save'' \<or> f = ''torch.load'')"
| "state_call (Method m) = (m = ''state_dict'' \<or> m = ''load_state_dict'')"
| "state_call _ = False"

definition state_calls :: "('o, 'e) event list \<Rightarrow> ('o, 'e) event list" where
  "state_calls evs = filter (\<lambda>ev. state_call (ev_api ev)) evs"






section \<open>Parameter names\<close>













section \<open>What each notebook does\<close>

datatype activity = Defines_model | Trains | Saves_and_loads | Plots

text \<open>
  The calls that show an activity: defining a class; \<open>backward\<close> on the loss and a step of the
  optimizer; \<open>torch.save\<close>, \<open>torch.load\<close>, \<open>state_dict\<close> and \<open>load_state_dict\<close>; making a figure
  and drawing on its axes.
\<close>

fun training_call :: "api \<Rightarrow> bool" where
  "training_call (Method m) = (m = ''backward'' \<or> m = ''step'')"
| "training_call _ = False"

fun plot_call :: "api \<Rightarrow> bool" where
  "plot_call (Fn f) = (f = ''plt.subplots'')"
| "plot_call (Method m) = (m = ''plot'' \<or> m = ''fill_between'')"
| "plot_call _ = False"

fun class_call :: "api \<Rightarrow> bool" where
  "class_call (Class_def c) = True"
| "class_call _ = False"

fun activity_call :: "activity \<Rightarrow> api \<Rightarrow> bool" where
  "activity_call Defines_model = class_call"
| "activity_call Trains = training_call"
| "activity_call Saves_and_loads = state_call"
| "activity_call Plots = plot_call"



definition performs :: "activity \<Rightarrow> ('o, 'e) event list \<Rightarrow> bool" where
  "performs a evs \<longleftrightarrow> list_ex (\<lambda>ev. ev_ok ev \<and> activity_call a (ev_api ev)) evs"


text \<open>
  \<open>reaches a m\<close>: every run of \<open>m\<close> that returns has made a successful call showing \<open>a\<close>, unless
  a library context manager interfered with an exception.
\<close>

definition reaches :: "activity \<Rightarrow> ('a, 'o, 'h, 'e) prog \<Rightarrow> bool" where
  "reaches a m \<longleftrightarrow> (\<forall>k v k'. m k = (Inr v, k') \<longrightarrow>
      (\<exists>evs. trace k' = trace k @ evs \<and> (list_ex interferes evs \<or> performs a evs)))"

section \<open>Successful runs, step by step\<close>

lemma ret_iff: "ret u k = (r, k') \<longleftrightarrow> r = Inr u \<and> k' = k"
  by (auto simp: ret_def)

lemma bnd_Inr_iff: "bnd m f k = (Inr v, k') \<longleftrightarrow> (\<exists>u k1. m k = (Inr u, k1) \<and> f u k1 = (Inr v, k'))"
  by (auto simp: bnd_def split: prod.splits sum.splits)

lemma seq_Inr_iff: "seq m n k = (Inr v, k') \<longleftrightarrow> (\<exists>u k1. m k = (Inr u, k1) \<and> n k1 = (Inr v, k'))"
  by (simp add: seq_def bnd_Inr_iff)

lemma call_Inr_iff: "call fw f args k = (Inr v, k') \<longleftrightarrow>
   (\<exists>h'. fw f args (heap k) = (Inr v, h') \<and> k' = k\<lparr>heap := h', trace := trace k @ [(f, args, Inr v)]\<rparr>)"
  by (auto simp: call_def split: prod.splits sum.splits)

lemma var_Inr_iff: "var x k = (Inr v, k') \<longleftrightarrow> vars k x = Some v \<and> k' = k"
  by (auto simp: var_def split: option.splits)

lemma lit_iff: "lit u k = (r, k') \<longleftrightarrow> r = Inr u \<and> k' = k"
  by (auto simp: lit_def ret_def)

lemma assign_Inr_iff: "assign x e k = (Inr v, k') \<longleftrightarrow>
   (\<exists>u k1. e k = (Inr u, k1) \<and> v = NoneV \<and> k' = k1\<lparr>vars := (vars k1)(x \<mapsto> u)\<rparr>)"
  by (auto simp: assign_def bnd_Inr_iff)

lemma app_Inr_iff: "app fw f es k = (Inr v, k') \<longleftrightarrow> (\<exists>vs k1. evals es k = (Inr vs, k1) \<and> call fw f vs k1 = (Inr v, k'))"
  by (simp add: app_def bnd_Inr_iff)

lemma evals_Nil_iff: "evals [] k = (r, k') \<longleftrightarrow> r = Inr [] \<and> k' = k"
  by (simp add: ret_iff)

lemma evals_Cons_Inr_iff: "evals (e # es) k = (Inr vs, k') \<longleftrightarrow>
   (\<exists>v k1 ws. e k = (Inr v, k1) \<and> evals es k1 = (Inr ws, k') \<and> vs = v # ws)"
  by (auto simp: bnd_Inr_iff ret_iff)

lemma block_Nil_iff: "block [] k = (r, k') \<longleftrightarrow> r = Inr NoneV \<and> k' = k"
  by (simp add: ret_iff)

lemma block_Cons_Inr_iff: "block (s # ss) k = (Inr v, k') \<longleftrightarrow> (\<exists>u k1. s k = (Inr u, k1) \<and> block ss k1 = (Inr v, k'))"
  by (simp add: seq_Inr_iff)

lemma tuple_Inr_iff: "tuple es k = (Inr v, k') \<longleftrightarrow> (\<exists>vs. evals es k = (Inr vs, k') \<and> v = TupleV vs)"
  by (auto simp: tuple_def bnd_Inr_iff ret_iff)

lemma py_add_Inr_iff: "py_add u n = Inr v \<longleftrightarrow> (\<exists>i. u = IntV i \<and> v = IntV (i + n))"
  by (cases u) auto

lemma add_int_Inr_iff: "add_int e n k = (Inr v, k') \<longleftrightarrow> (\<exists>i. e k = (Inr (IntV i), k') \<and> v = IntV (i + n))"
  by (auto simp: add_int_def bnd_Inr_iff py_add_Inr_iff)

text \<open>
  The same facts as elimination rules that keep every intermediate kernel state as a
  variable and describe it by its components.
\<close>

lemma callE:
  assumes "call fw f args k = (Inr v, k')"
  obtains "trace k' = trace k @ [(f, args, Inr v)]" "vars k' = vars k" "environ k' = environ k"
    "fw f args (heap k) = (Inr v, heap k')"
  using assms that unfolding call_Inr_iff by auto

lemma varE:
  assumes "var x k = (Inr v, k')"
  obtains "k' = k" "vars k x = Some v"
  using assms that unfolding var_Inr_iff by blast

lemma litE:
  assumes "lit u k = (Inr v, k')"
  obtains "k' = k" "v = u"
  using assms that unfolding lit_iff by blast

lemma retE:
  assumes "ret u k = (Inr v, k')"
  obtains "k' = k" "v = u"
  using assms that unfolding ret_iff by blast

lemma assignE:
  assumes "assign x e k = (Inr v, k')"
  obtains u k1 where "e k = (Inr u, k1)" "trace k' = trace k1" "vars k' = (vars k1)(x \<mapsto> u)"
    "environ k' = environ k1" "heap k' = heap k1" "v = NoneV"
  using assms that unfolding assign_Inr_iff by auto

lemma appE:
  assumes "app fw f es k = (Inr v, k')"
  obtains vs k1 where "evals es k = (Inr vs, k1)" "call fw f vs k1 = (Inr v, k')"
  using assms that unfolding app_Inr_iff by blast

lemma evals_NilE:
  assumes "evals [] k = (Inr vs, k')"
  obtains "k' = k" "vs = []"
  using assms that unfolding evals_Nil_iff by blast

lemma evals_ConsE:
  assumes "evals (e # es) k = (Inr vs, k')"
  obtains v k1 ws where "e k = (Inr v, k1)" "evals es k1 = (Inr ws, k')" "vs = v # ws"
  using assms that unfolding evals_Cons_Inr_iff by blast

lemma block_NilE:
  assumes "block [] k = (Inr v, k')"
  obtains "k' = k" "v = NoneV"
  using assms that unfolding block_Nil_iff by blast

lemma block_ConsE:
  assumes "block (s # ss) k = (Inr v, k')"
  obtains u k1 where "s k = (Inr u, k1)" "block ss k1 = (Inr v, k')"
  using assms that unfolding block_Cons_Inr_iff by blast

lemma tupleE:
  assumes "tuple es k = (Inr v, k')"
  obtains vs where "evals es k = (Inr vs, k')" "v = TupleV vs"
  using assms that unfolding tuple_Inr_iff by blast

lemma add_intE:
  assumes "add_int e n k = (Inr v, k')"
  obtains i where "e k = (Inr (IntV i), k')" "v = IntV (i + n)"
  using assms that unfolding add_int_Inr_iff by blast

lemma bndE:
  assumes "bnd m f k = (Inr v, k')"
  obtains u k1 where "m k = (Inr u, k1)" "f u k1 = (Inr v, k')"
  using assms that unfolding bnd_Inr_iff by blast

lemma seqE:
  assumes "seq m n k = (Inr v, k')"
  obtains u k1 where "m k = (Inr u, k1)" "n k1 = (Inr v, k')"
  using assms that unfolding seq_Inr_iff by blast

lemmas runE = callE varE litE retE assignE appE evals_NilE evals_ConsE block_NilE block_ConsE tupleE add_intE


lemma cond_Inr_iff: "cond c t e k = (Inr v, k') \<longleftrightarrow>
   (\<exists>b k1. c k = (Inr b, k1) \<and> (if truthy b then t k1 else e k1) = (Inr v, k'))"
  unfolding cond_def bnd_Inr_iff by (cases "\<exists>b k1. c k = (Inr b, k1) \<and> truthy b") auto

lemma condE:
  assumes "cond c t e k = (Inr v, k')"
  obtains b k1 where "c k = (Inr b, k1)" "(if truthy b then t k1 else e k1) = (Inr v, k')"
  using assms that unfolding cond_Inr_iff by blast

lemma in_environE:
  assumes "in_environ x k = (Inr v, k')"
  obtains "k' = k" "v = BoolV (environ k x \<noteq> None)"
  using assms that unfolding in_environ_def by auto

lemma py_range_Inr_iff: "py_range u = Inr vs \<longleftrightarrow> (\<exists>n. u = IntV n \<and> vs = map (\<lambda>i. IntV (int i)) [0..<nat n])"
  by (cases u) auto

lemma for_rangeE:
  assumes "for_range x n body k = (Inr v, k')"
  obtains c k1 where "n k = (Inr (IntV c), k1)" "for_in x (map (\<lambda>i. IntV (int i)) [0..<nat c]) body k1 = (Inr v, k')"
  using assms that unfolding for_range_def bnd_Inr_iff range_of_def
  by (auto simp: py_range_Inr_iff)


section \<open>The training loops\<close>

lemma loop_inv_upd:
  "loop_inv m ml opt tx ty n \<Longrightarrow> loop_inv m ml opt tx ty (n(''i'' \<mapsto> u))"
  by (simp add: loop_inv_def)

lemma loop_inv_unique:
  assumes "loop_inv m ml opt tx ty n" "loop_inv m' ml' opt' tx' ty' n"
  shows "m' = m \<and> ml' = ml \<and> opt' = opt \<and> tx' = tx \<and> ty' = ty"
  using assms by (simp add: loop_inv_def)

text \<open>One pass through the body of either loop is one training iteration.\<close>

lemma sm_loop_body_iteration:
  assumes "sm_loop_body fw k = (Inr v, k')"
  shows "\<exists>m ml opt tx ty. loop_inv m ml opt tx ty (vars k) \<and> loop_inv m ml opt tx ty (vars k') \<and>
     (\<exists>evs. trace k' = trace k @ evs \<and> training_iteration m ml opt tx ty evs)"
  using assms unfolding sm_loop_body_def
  apply (elim runE)
  apply hypsubst
  apply (simp add: loop_inv_def ev_api_def ev_args_def ev_ok_def ev_val_def)
  done

lemma ciq_loop_body_iteration:
  assumes "ciq_loop_body fw k = (Inr v, k')"
  shows "\<exists>m ml opt tx ty. loop_inv m ml opt tx ty (vars k) \<and> loop_inv m ml opt tx ty (vars k') \<and>
     (\<exists>evs. trace k' = trace k @ evs \<and> training_iteration m ml opt tx ty evs)"
  using assms unfolding ciq_loop_body_def
  apply (elim runE)
  apply hypsubst
  apply (simp add: loop_inv_def ev_api_def ev_args_def ev_ok_def ev_val_def)
  done

lemma for_in_iterations:
  assumes body: "\<And>k v k'. I (vars k) \<Longrightarrow> body k = (Inr v, k') \<Longrightarrow>
        I (vars k') \<and> (\<exists>evs. trace k' = trace k @ evs \<and> Q evs)"
    and upd: "\<And>n u. I n \<Longrightarrow> I (n(x \<mapsto> u))"
  shows "I (vars k) \<Longrightarrow> for_in x vs body k = (Inr v, k') \<Longrightarrow>
     I (vars k') \<and> (\<exists>iters. trace k' = trace k @ concat iters \<and> length iters = length vs \<and> list_all Q iters)"
proof (induction vs arbitrary: k)
  case Nil
  then show ?case by (simp add: ret_iff)
next
  case (Cons a vs)
  from Cons.prems(2) obtain u1 k1 u2 k2 where
    a: "assign x (lit a) k = (Inr u1, k1)" and b: "body k1 = (Inr u2, k2)"
    and r: "for_in x vs body k2 = (Inr v, k')"
    by (auto simp: seq_Inr_iff)
  from a have k1: "vars k1 = (vars k)(x \<mapsto> a)" "trace k1 = trace k"
    by (auto simp: assign_Inr_iff lit_iff)
  from Cons.prems(1) k1 have "I (vars k1)" by (simp add: upd)
  from body[OF this b] obtain evs where k2: "I (vars k2)" "trace k2 = trace k1 @ evs" "Q evs"
    by blast
  from Cons.IH[OF k2(1) r] obtain iters where
    it: "I (vars k')" "trace k' = trace k2 @ concat iters" "length iters = length vs" "list_all Q iters"
    by blast
  have "trace k' = trace k @ concat (evs # iters)" using it(2) k2(2) k1(2) by simp
  moreover have "length (evs # iters) = length (a # vs)" using it(3) by simp
  moreover have "list_all Q (evs # iters)" using it(4) k2(3) by simp
  ultimately show ?case using it(1) by blast
qed

lemma block_append_Inr_iff:
  "block (xs @ ys) k = (Inr v, k') \<longleftrightarrow> (\<exists>u k1. block xs k = (Inr u, k1) \<and> block ys k1 = (Inr v, k'))"
  by (induction xs arbitrary: k) (auto simp: ret_iff seq_Inr_iff)

text \<open>The statements of a training cell before its loop.\<close>

lemma training_setup:
  assumes "block [
     app fw (Import ''os'') [],
     assign ''smoke_test'' (in_environ ''CI''),
     assign ''training_iter'' (cond (var ''smoke_test'') (lit (IntV 2)) (lit (IntV d))),
     app fw (Method ''train'') [var ''model''],
     app fw (Method ''train'') [var ''likelihood''],
     assign ''optimizer'' (app fw (Fn ''torch.optim.Adam'')
        [app fw (Method ''parameters'') [var ''model''], lit (Kw ''lr'' (FloatExpr ''0.1''))]),
     assign ''mll'' (app fw (Fn ''gpytorch.mlls.ExactMarginalLogLikelihood'') [var ''likelihood'', var ''model''])] k
     = (Inr u, k1)"
  shows "\<exists>stp model likelihood optimizer mll params.
        vars k ''model'' = Some model \<and> vars k ''likelihood'' = Some likelihood \<and>
        trace k1 = trace k @ stp \<and> environ k1 = environ k \<and>
        list_all ev_ok stp \<and> map ev_api stp = training_setup_calls \<and>
        (Fn ''torch.optim.Adam'', [params, Kw ''lr'' (FloatExpr ''0.1'')], Inr optimizer) \<in> set stp \<and>
        (Fn ''gpytorch.mlls.ExactMarginalLogLikelihood'', [likelihood, model], Inr mll) \<in> set stp \<and>
        vars k1 = (vars k)(''smoke_test'' \<mapsto> BoolV (environ k ''CI'' \<noteq> None),
           ''training_iter'' \<mapsto> IntV (if environ k ''CI'' \<noteq> None then 2 else d),
           ''optimizer'' \<mapsto> optimizer, ''mll'' \<mapsto> mll)"
  using assms
  apply (elim runE condE in_environE)
  apply hypsubst
  apply (simp add: ev_api_def ev_ok_def training_setup_calls_def truthy_def lit_iff split: if_splits)
   apply auto
  done

lemma training_cell:
  assumes run: "block ([
     app fw (Import ''os'') [],
     assign ''smoke_test'' (in_environ ''CI''),
     assign ''training_iter'' (cond (var ''smoke_test'') (lit (IntV 2)) (lit (IntV d))),
     app fw (Method ''train'') [var ''model''],
     app fw (Method ''train'') [var ''likelihood''],
     assign ''optimizer'' (app fw (Fn ''torch.optim.Adam'')
        [app fw (Method ''parameters'') [var ''model''], lit (Kw ''lr'' (FloatExpr ''0.1''))]),
     assign ''mll'' (app fw (Fn ''gpytorch.mlls.ExactMarginalLogLikelihood'') [var ''likelihood'', var ''model''])]
     @ [for_range ''i'' (var ''training_iter'') body]) k = (Inr v, k')"
    and body: "\<And>k v k'. body k = (Inr v, k') \<Longrightarrow>
       \<exists>m ml opt tx ty. loop_inv m ml opt tx ty (vars k) \<and> loop_inv m ml opt tx ty (vars k') \<and>
         (\<exists>evs. trace k' = trace k @ evs \<and> training_iteration m ml opt tx ty evs)"
    and d: "0 < d"
  shows "training_run d k k'"
proof -
  from run obtain u k1 where s: "block [
     app fw (Import ''os'') [],
     assign ''smoke_test'' (in_environ ''CI''),
     assign ''training_iter'' (cond (var ''smoke_test'') (lit (IntV 2)) (lit (IntV d))),
     app fw (Method ''train'') [var ''model''],
     app fw (Method ''train'') [var ''likelihood''],
     assign ''optimizer'' (app fw (Fn ''torch.optim.Adam'')
        [app fw (Method ''parameters'') [var ''model''], lit (Kw ''lr'' (FloatExpr ''0.1''))]),
     assign ''mll'' (app fw (Fn ''gpytorch.mlls.ExactMarginalLogLikelihood'') [var ''likelihood'', var ''model''])] k
     = (Inr u, k1)"
    and l: "block [for_range ''i'' (var ''training_iter'') body] k1 = (Inr v, k')"
    unfolding block_append_Inr_iff by blast
  from training_setup[OF s] obtain stp model likelihood optimizer mll params where
    st: "vars k ''model'' = Some model" "vars k ''likelihood'' = Some likelihood"
        "trace k1 = trace k @ stp" "environ k1 = environ k"
        "list_all ev_ok stp" "map ev_api stp = training_setup_calls"
        "(Fn ''torch.optim.Adam'', [params, Kw ''lr'' (FloatExpr ''0.1'')], Inr optimizer) \<in> set stp"
        "(Fn ''gpytorch.mlls.ExactMarginalLogLikelihood'', [likelihood, model], Inr mll) \<in> set stp"
        "vars k1 = (vars k)(''smoke_test'' \<mapsto> BoolV (environ k ''CI'' \<noteq> None),
           ''training_iter'' \<mapsto> IntV (if environ k ''CI'' \<noteq> None then 2 else d),
           ''optimizer'' \<mapsto> optimizer, ''mll'' \<mapsto> mll)"
    by blast
  let ?n = "if environ k ''CI'' \<noteq> None then 2 else d"
  from l obtain w k2 where f: "for_range ''i'' (var ''training_iter'') body k1 = (Inr w, k2)" and "k' = k2"
    by (auto simp: seq_Inr_iff ret_iff)
  from f st(9) have fi: "for_in ''i'' (map (\<lambda>i. IntV (int i)) [0..<nat ?n]) body k1 = (Inr w, k2)"
    by (elim for_rangeE varE) simp
  from d have "0 < nat ?n" by simp
  then have "[0..<nat ?n] = 0 # [Suc 0..<nat ?n]" by (simp add: upt_conv_Cons)
  with fi obtain u1 ka u2 kb where
    fa: "assign ''i'' (lit (IntV 0)) k1 = (Inr u1, ka)" and fb: "body ka = (Inr u2, kb)"
    by (auto simp: seq_Inr_iff)
  from fa have ka: "vars ka = (vars k1)(''i'' \<mapsto> IntV 0)"
    by (auto simp: assign_Inr_iff lit_iff)
  from body[OF fb] obtain m0 ml0 opt0 tx ty where "loop_inv m0 ml0 opt0 tx ty (vars ka)" by blast
  with ka st(9) have data: "vars k ''train_x'' = Some tx" "vars k ''train_y'' = Some ty"
    by (simp_all add: loop_inv_def)
  have inv: "loop_inv model mll optimizer tx ty (vars k1)"
    using st(1,9) data by (simp add: loop_inv_def)
  have step: "loop_inv model mll optimizer tx ty (vars k1) \<Longrightarrow> for_in ''i'' vs body k1 = (Inr w, k2) \<Longrightarrow>
      loop_inv model mll optimizer tx ty (vars k2) \<and>
      (\<exists>iters. trace k2 = trace k1 @ concat iters \<and> length iters = length vs \<and>
         list_all (training_iteration model mll optimizer tx ty) iters)" for vs
  proof (rule for_in_iterations[where I = "loop_inv model mll optimizer tx ty"])
    show "\<And>k v k'. loop_inv model mll optimizer tx ty (vars k) \<Longrightarrow> body k = (Inr v, k') \<Longrightarrow>
       loop_inv model mll optimizer tx ty (vars k') \<and>
       (\<exists>evs. trace k' = trace k @ evs \<and> training_iteration model mll optimizer tx ty evs)"
      using body loop_inv_unique by metis
    show "\<And>n u. loop_inv model mll optimizer tx ty n \<Longrightarrow> loop_inv model mll optimizer tx ty (n(''i'' \<mapsto> u))"
      by (rule loop_inv_upd)
  qed
  from step[OF inv fi]
  obtain iters where it: "trace k2 = trace k1 @ concat iters" "length iters = nat ?n"
      "list_all (training_iteration model mll optimizer tx ty) iters"
    by auto
  have len: "int (length iters) = ?n" using it(2) d by simp
  have tr: "trace k' = trace k @ stp @ concat iters"
    using it(1) st(3) \<open>k' = k2\<close> by simp
  show ?thesis
    unfolding training_run_def
    apply (rule exI[of _ stp], rule exI[of _ iters], rule exI[of _ model], rule exI[of _ likelihood],
        rule exI[of _ tx], rule exI[of _ ty], rule exI[of _ optimizer], rule exI[of _ mll], rule exI[of _ params])
    apply (intro conjI)
              apply (fact st(1))
             apply (fact st(2))
            apply (fact data(1))
           apply (fact data(2))
          apply (fact tr)
         apply (fact st(5))
        apply (fact st(6))
       apply (fact st(7))
      apply (fact st(8))
     apply (fact len)
    apply (fact it(3))
    done
qed

lemma sm_cell7_training_run:
  assumes "sm_cell7 fw k = (Inr v, k')"
  shows "training_run 100 k k'"
  by (rule training_cell[where body = "sm_loop_body fw" and fw = fw and v = v])
     (use assms in \<open>simp_all add: sm_cell7_def sm_loop_body_iteration\<close>)

lemma ciq_cell8_training_run:
  assumes "ciq_cell8 fw k = (Inr v, k')"
  shows "training_run 50 k k'"
  by (rule training_cell[where body = "ciq_loop_body fw" and fw = fw and v = v])
     (use assms in \<open>simp_all add: ciq_cell8_def ciq_loop_body_iteration\<close>)

section \<open>Frame rules\<close>






























section \<open>Errors are never caught\<close>

lemma raising_Nil: "raising x ([] :: ('o, 'e) event list) \<longleftrightarrow> (\<forall>e. x \<noteq> Raised e)"
  by (cases x) auto

lemma outcome_Nil: "(\<And>e. err \<noteq> Some (Raised e)) \<Longrightarrow> outcome err []"
  by (cases err) (auto simp: outcome_def raising_Nil)



lemma propagatesD:
  assumes "propagates m" "m k = (r, k')"
  obtains evs where "trace k' = trace k @ evs" "\<not> list_ex interferes evs \<Longrightarrow> outcome (err_of r) evs"
  using assms unfolding propagates_def by blast

lemma propagatesI:
  assumes "\<And>k r k'. m k = (r, k') \<Longrightarrow>
     \<exists>evs. trace k' = trace k @ evs \<and> (\<not> list_ex interferes evs \<longrightarrow> outcome (err_of r) evs)"
  shows "propagates m"
  using assms unfolding propagates_def by blast

lemma propagates_pure:
  assumes "\<And>k. trace (snd (m k)) = trace k" "\<And>k e. fst (m k) \<noteq> Inl (Raised e)"
  shows "propagates m"
proof (rule propagatesI)
  fix k r k' assume "m k = (r, k')"
  with assms have "trace k' = trace k" "\<And>e. r \<noteq> Inl (Raised e)" by (metis snd_conv, metis fst_conv)
  then have "\<And>e. err_of r \<noteq> Some (Raised e)" by (cases r) (auto simp: err_of_def)
  then have "outcome (err_of r) []" by (rule outcome_Nil)
  with \<open>trace k' = trace k\<close> have "trace k' = trace k @ [] \<and> (\<not> list_ex interferes [] \<longrightarrow> outcome (err_of r) [])"
    by simp
  then show "\<exists>evs. trace k' = trace k @ evs \<and> (\<not> list_ex interferes evs \<longrightarrow> outcome (err_of r) evs)" by blast
qed










































section \<open>The environment is read for \<open>CI\<close> only\<close>




































section \<open>Calls a notebook never makes\<close>
































section \<open>The state-dictionary calls of the save/load notebook\<close>

lemma state_calls_append [simp]: "state_calls (xs @ ys) = state_calls xs @ state_calls ys"
  by (simp add: state_calls_def)

lemma state_calls_Nil [simp]: "state_calls [] = []"
  by (simp add: state_calls_def)

lemma state_calls_Cons [simp]:
  "state_calls ((f, a, r) # evs) = (if state_call f then (f, a, r) # state_calls evs else state_calls evs)"
  by (simp add: state_calls_def ev_api_def)




















section \<open>What each notebook does and does not do\<close>










lemma reachesI:
  assumes "\<And>k v k'. m k = (Inr v, k') \<Longrightarrow>
     \<exists>evs. trace k' = trace k @ evs \<and> (list_ex interferes evs \<or> performs a evs)"
  shows "reaches a m"
  using assms unfolding reaches_def by blast

lemma reachesD:
  assumes "reaches a m" "m k = (Inr v, k')"
  obtains evs where "trace k' = trace k @ evs" "list_ex interferes evs \<or> performs a evs"
  using assms unfolding reaches_def by blast

lemma propagates_trace:
  assumes "propagates m" "m k = (r, k')"
  obtains evs where "trace k' = trace k @ evs"
  using propagatesD[OF assms] by blast

lemma performs_append: "performs a (xs @ ys) \<longleftrightarrow> performs a xs \<or> performs a ys"
  by (auto simp: performs_def list_ex_iff)


lemma reaches_bnd1:
  assumes "reaches a m" "\<And>v. propagates (f v)"
  shows "reaches a (bnd m f)"
proof (rule reachesI)
  fix k v k' assume "bnd m f k = (Inr v, k')"
  then obtain u k1 where m: "m k = (Inr u, k1)" and f: "f u k1 = (Inr v, k')"
    unfolding bnd_Inr_iff by blast
  from reachesD[OF assms(1) m] obtain evs1 where
    e1: "trace k1 = trace k @ evs1" "list_ex interferes evs1 \<or> performs a evs1" by blast
  from propagates_trace[OF assms(2) f] obtain evs2 where e2: "trace k' = trace k1 @ evs2" by blast
  from e1 e2 have "trace k' = trace k @ (evs1 @ evs2) \<and>
      (list_ex interferes (evs1 @ evs2) \<or> performs a (evs1 @ evs2))"
    by (auto simp: performs_append)
  then show "\<exists>evs. trace k' = trace k @ evs \<and> (list_ex interferes evs \<or> performs a evs)" by blast
qed



lemma reaches_assign: "reaches a e \<Longrightarrow> reaches a (assign x e)"
  unfolding assign_def
  by (rule reaches_bnd1) (auto intro: propagates_pure)



























section \<open>Running the notebooks on the concrete framework\<close>

lemmas exec_defs = ret_def bnd_def seq_def call_def var_def lit_def assign_def app_def setattr_def
  range_of_def for_range_def truthy_def cond_def in_environ_def with_cm_def with_exit_def tuple_def add_int_def unpack2_def
  construct_def to_cuda_def time_magic_def display_def fw_fresh_def fw_raising_def kernel0_def ci_env_def upt_conv_Cons


lemmas sm_defs = sm_cell1_def sm_cell3_def sm_cell5_def SpectralMixtureGPModel_init_def sm_cell7_def
  sm_loop_body_def sm_cell9_def sm_plot_body_def

lemmas ciq_defs = ciq_cell1_def ciq_cell2_def noisy_sin_def ciq_cell4_def HAVE_KEOPS_def ciq_cell6_def
  ciq_ExactGPModel_init_def ciq_cell7_def ciq_cell8_def ciq_loop_body_def ciq_cell10_def ciq_cell12_def
  ciq_sample_body_def

lemma sm_cell7_runs: "fst (sm_cell7 fw_fresh sm_before_training) = Inr NoneV"
  by (simp add: sm_before_training_def sm_defs exec_defs)

lemma ciq_cell8_runs: "fst (ciq_cell8 fw_fresh ciq_before_training) = Inr NoneV"
  by (simp add: ciq_before_training_def ciq_defs exec_defs)





section \<open>The claims\<close>

text \<open>
  C5. In each training notebook the optimization loop executes exactly \<open>training_iter\<close>
  iterations, where \<open>training_iter\<close> is 2 when the \<open>CI\<close> environment variable is set and
  otherwise 100 (spectral-mixture notebook) or 50 (CIQ notebook); every iteration, in order,
  zeroes the gradients, evaluates the model on the training inputs, computes the loss as the
  negated exact marginal log-likelihood of that output against the training targets,
  backpropagates, and takes one Adam optimizer step. Stated for every framework and every
  kernel state in which the training cell runs to its end.
\<close>

theorem training_loop_iterations:
  "(fst (sm_cell7 fw k) = Inr v \<longrightarrow> training_run 100 k (snd (sm_cell7 fw k))) \<and>
   (fst (ciq_cell8 fw k) = Inr v \<longrightarrow> training_run 50 k (snd (ciq_cell8 fw k)))"
proof (intro conjI impI)
  assume "fst (sm_cell7 fw k) = Inr v"
  then have "sm_cell7 fw k = (Inr v, snd (sm_cell7 fw k))"
    by (metis prod.collapse)
  then show "training_run 100 k (snd (sm_cell7 fw k))"
    by (rule sm_cell7_training_run)
next
  assume "fst (ciq_cell8 fw k) = Inr v"
  then have "ciq_cell8 fw k = (Inr v, snd (ciq_cell8 fw k))"
    by (metis prod.collapse)
  then show "training_run 50 k (snd (ciq_cell8 fw k))"
    by (rule ciq_cell8_training_run)
qed

theorem training_loop_iterations_witness:
  "fst (sm_cell7 fw_fresh sm_before_training) = Inr NoneV \<and>
   training_run 100 sm_before_training (snd (sm_cell7 fw_fresh sm_before_training)) \<and>
   fst (ciq_cell8 fw_fresh ciq_before_training) = Inr NoneV \<and>
   training_run 50 ciq_before_training (snd (ciq_cell8 fw_fresh ciq_before_training))"
  using training_loop_iterations[of fw_fresh sm_before_training NoneV]
    training_loop_iterations[of fw_fresh ciq_before_training NoneV]
    sm_cell7_runs ciq_cell8_runs
  by blast

















end
